theory Spec2Isabelle
  imports Complex_Main
begin

section \<open>HybridConditional (gtsam/hybrid/HybridConditional.cpp)\<close>

text \<open>
  A \<open>Key\<close> is an unsigned integer that identifies one variable. Keys are only
  compared, never computed with, so they are natural numbers here. A C++
  \<open>double\<close> is a real number; the numeric methods of the wrapped conditionals
  are fields of the objects below, so nothing is assumed about what they compute.
\<close>

type_synonym Key = nat
type_synonym double = real

type_synonym VectorValues = "Key \<Rightarrow> double list option"
type_synonym DiscreteValues = "Key \<Rightarrow> nat option"

record HybridValues =
  continuous :: VectorValues
  discrete :: DiscreteValues

datatype AlgebraicDecisionTree =
  Leaf double
| Choice Key "AlgebraicDecisionTree list"

text \<open>
  An exception is a value: \<open>runtime_error\<close> is the one HybridConditional.cpp
  throws itself, \<open>other_exception\<close> stands for whatever a method of a wrapped
  conditional throws (their classes are not part of this file).
\<close>

datatype exception =
  runtime_error string
| other_exception string

text \<open>
  The wrapped conditionals are declared in other headers. Each is the record of the
  methods that HybridConditional.cpp calls on it; a method either returns or throws.
\<close>

record GaussianConditional =
  gc_error :: "VectorValues \<Rightarrow> exception + double"
  gc_logProbability :: "VectorValues \<Rightarrow> exception + double"
  gc_negLogConstant :: "exception + double"

record HybridGaussianConditional =
  hgc_error :: "HybridValues \<Rightarrow> exception + double"
  hgc_errorTree :: "VectorValues \<Rightarrow> exception + AlgebraicDecisionTree"
  hgc_logProbability :: "HybridValues \<Rightarrow> exception + double"
  hgc_negLogConstant :: "exception + double"

record DiscreteConditional =
  dc_error :: "DiscreteValues \<Rightarrow> exception + double"
  dc_errorTree :: "exception + AlgebraicDecisionTree"
  dc_logProbability :: "DiscreteValues \<Rightarrow> exception + double"
  dc_negLogConstant :: "exception + double"

text \<open>
  \<open>inner\<close> (the member \<^verbatim>\<open>inner_\<close>) is a shared pointer to a factor: null, or an
  object whose dynamic type is one of the three conditional classes, or some other
  factor class.
\<close>

datatype InnerFactor =
  IsGaussianConditional GaussianConditional
| IsHybridGaussianConditional HybridGaussianConditional
| IsDiscreteConditional DiscreteConditional
| IsOtherFactor

record HybridConditional =
  inner :: "InnerFactor option"

text \<open>
  Modelled from the spec: HybridConditional.h, which declares \<open>asGaussian\<close>,
  \<open>asHybrid\<close> and \<open>asDiscrete\<close>, is missing. HybridConditional.ipynb describes
  them as casts of the inner pointer back to the concrete type, failing (null) when
  the inner object is of another type.
\<close>

definition asGaussian :: "HybridConditional \<Rightarrow> GaussianConditional option" where
  "asGaussian c =
     (case inner c of Some (IsGaussianConditional gc) \<Rightarrow> Some gc | _ \<Rightarrow> None)"

definition asHybrid :: "HybridConditional \<Rightarrow> HybridGaussianConditional option" where
  "asHybrid c =
     (case inner c of Some (IsHybridGaussianConditional gm) \<Rightarrow> Some gm | _ \<Rightarrow> None)"

definition asDiscrete :: "HybridConditional \<Rightarrow> DiscreteConditional option" where
  "asDiscrete c =
     (case inner c of Some (IsDiscreteConditional dc) \<Rightarrow> Some dc | _ \<Rightarrow> None)"

text \<open>The four dispatching methods, branch for branch, with the source's messages.\<close>

definition error :: "HybridConditional \<Rightarrow> HybridValues \<Rightarrow> exception + double" where
  "error c hybridValues =
     (case asGaussian c of
        Some gc \<Rightarrow> gc_error gc (continuous hybridValues)
      | None \<Rightarrow>
     (case asHybrid c of
        Some gm \<Rightarrow> hgc_error gm hybridValues
      | None \<Rightarrow>
     (case asDiscrete c of
        Some dc \<Rightarrow> dc_error dc (discrete hybridValues)
      | None \<Rightarrow>
          Inl (runtime_error ''HybridConditional::error: conditional type not handled''))))"

definition errorTree ::
  "HybridConditional \<Rightarrow> VectorValues \<Rightarrow> exception + AlgebraicDecisionTree" where
  "errorTree c continuousValues =
     (case asGaussian c of
        Some gc \<Rightarrow>
          (case gc_error gc continuousValues of
             Inl e \<Rightarrow> Inl e
           | Inr x \<Rightarrow> Inr (Leaf x))
      | None \<Rightarrow>
     (case asHybrid c of
        Some gm \<Rightarrow> hgc_errorTree gm continuousValues
      | None \<Rightarrow>
     (case asDiscrete c of
        Some dc \<Rightarrow> dc_errorTree dc
      | None \<Rightarrow>
          Inl (runtime_error ''HybridConditional::error: conditional type not handled''))))"

definition logProbability :: "HybridConditional \<Rightarrow> HybridValues \<Rightarrow> exception + double" where
  "logProbability c values =
     (case asGaussian c of
        Some gc \<Rightarrow> gc_logProbability gc (continuous values)
      | None \<Rightarrow>
     (case asHybrid c of
        Some gm \<Rightarrow> hgc_logProbability gm values
      | None \<Rightarrow>
     (case asDiscrete c of
        Some dc \<Rightarrow> dc_logProbability dc (discrete values)
      | None \<Rightarrow>
          Inl (runtime_error
                 ''HybridConditional::logProbability: conditional type not handled''))))"

definition negLogConstant :: "HybridConditional \<Rightarrow> exception + double" where
  "negLogConstant c =
     (case asGaussian c of
        Some gc \<Rightarrow> gc_negLogConstant gc
      | None \<Rightarrow>
     (case asHybrid c of
        Some gm \<Rightarrow> hgc_negLogConstant gm
      | None \<Rightarrow>
     (case asDiscrete c of
        Some dc \<Rightarrow> dc_negLogConstant dc
      | None \<Rightarrow>
          Inl (runtime_error
                 ''HybridConditional::negLogConstant: conditional type not handled''))))"

text \<open>\<open>evaluate\<close> is \<open>std::exp\<close> of \<open>logProbability\<close>; an exception of the latter
  passes through.\<close>

definition evaluate :: "HybridConditional \<Rightarrow> HybridValues \<Rightarrow> exception + double" where
  "evaluate c values =
     (case logProbability c values of
        Inl e \<Rightarrow> Inl e
      | Inr p \<Rightarrow> Inr (exp p))"

subsection \<open>Sample objects\<close>

definition unitGaussian :: GaussianConditional where
  "unitGaussian =
     \<lparr> gc_error = (\<lambda>x. case x 0 of Some [a] \<Rightarrow> Inr (a * a / 2)
                             | _ \<Rightarrow> Inl (other_exception ''out_of_range'')),
       gc_logProbability = (\<lambda>x. case x 0 of Some [a] \<Rightarrow> Inr (- (a * a / 2))
                             | _ \<Rightarrow> Inl (other_exception ''out_of_range'')),
       gc_negLogConstant = Inr 0 \<rparr>"

definition coin :: DiscreteConditional where
  "coin =
     \<lparr> dc_error = (\<lambda>d. case d 1 of Some m \<Rightarrow> Inr (real m)
                            | None \<Rightarrow> Inl (other_exception ''out_of_range'')),
       dc_errorTree = Inr (Choice 1 [Leaf 0, Leaf 1]),
       dc_logProbability = (\<lambda>d. case d 1 of Some m \<Rightarrow> Inr (- real m)
                            | None \<Rightarrow> Inl (other_exception ''out_of_range'')),
       dc_negLogConstant = Inr 0 \<rparr>"

definition sampleValues :: "double \<Rightarrow> nat \<Rightarrow> HybridValues" where
  "sampleValues a m = \<lparr> continuous = [0 \<mapsto> [a]], discrete = [1 \<mapsto> m] \<rparr>"

section \<open>Variable elimination on keys\<close>

text \<open>
  The elimination engine (VariableIndex, Ordering, EliminationTree, JunctionTree and
  BayesTree under gtsam/inference, and the bodies of the per-family elimination
  functions) is not among the source files; DiscreteFactorGraph.h only declares
  \<open>EliminateDiscrete\<close>, and the notebooks under inference/doc record two runs. The
  definitions of this section follow sections 3 and 4 of the specification. Factors
  and conditionals are represented by their keys, which is all that the structure of
  the trees depends on.
\<close>

text \<open>Modelled from the spec: Factor (section 3), an immutable object exposing the
  keys it involves; its numerical content is out of scope.\<close>

datatype Factor = Factor (keys: "Key list")

text \<open>Modelled from the spec: FactorGraph (section 3), an ordered collection of
  factor handles in which a null marks a removed factor.\<close>

type_synonym FactorGraph = "Factor option list"

text \<open>Modelled from the spec: Ordering (section 3), a sequence of keys.\<close>

type_synonym Ordering = "Key list"

text \<open>Modelled from the spec: Conditional (section 3), P(frontals | separator); the
  separator keys are the conditional's parents.\<close>

datatype Conditional = Conditional (frontals: "Key list") (parents: "Key list")

text \<open>Modelled from the spec: the configuration errors of section 7 (invalid
  ordering, unknown key referenced, out-of-range factor index).\<close>

datatype ConfigurationError =
  InvalidOrdering
| UnknownKey Key
| FactorIndexOutOfRange nat

subsection \<open>VariableIndex\<close>

text \<open>Modelled from the spec: VariableIndex (sections 3 and 4.1), a mapping from each
  key to the positions of the factors that touch it, variables in the order of their
  first insertion, every incidence recorded once.\<close>

type_synonym VariableIndex = "(Key \<times> nat list) list"

text \<open>Modelled from the spec: recording one (key, factor position) incidence, and
  \<open>augment\<close> for the incidences of one more factor (section 4.1).\<close>

fun addIncidence :: "nat \<Rightarrow> Key \<Rightarrow> VariableIndex \<Rightarrow> VariableIndex" where
  "addIncidence i k [] = [(k, [i])]"
| "addIncidence i k ((k', js) # vi) =
     (if k = k' then (k', if i \<in> set js then js else js @ [i]) # vi
      else (k', js) # addIncidence i k vi)"

definition augment :: "nat \<Rightarrow> Factor option \<Rightarrow> VariableIndex \<Rightarrow> VariableIndex" where
  "augment i f vi = (case f of None \<Rightarrow> vi | Some g \<Rightarrow> fold (addIncidence i) (keys g) vi)"

text \<open>Modelled from the spec: \<open>build(graph) -> VariableIndex\<close> (section 4.1) scans
  every factor once, in position order.\<close>

definition buildVariableIndex :: "FactorGraph \<Rightarrow> VariableIndex" where
  "buildVariableIndex graph =
     fold (\<lambda>(i, f). augment i f) (zip [0..<length graph] graph) []"

subsection \<open>The elimination step\<close>

text \<open>Modelled from the spec: the separator of an elimination step (section 4.4), the
  keys of the joint factor that are not frontal. They are kept in ascending order, as
  the conditionals printed in EliminationTree.ipynb list their parents.\<close>

definition separatorKeys :: "Factor list \<Rightarrow> Key list \<Rightarrow> Key list" where
  "separatorKeys fs frontalKeys =
     sort (remdups (filter (\<lambda>k. k \<notin> set frontalKeys) (concat (map keys fs))))"

text \<open>Modelled from the spec: \<open>Eliminate(factorsOnCluster, frontalKeys) ->
  (Conditional, SeparatorFactor)\<close> (section 4.4); the bodies of \<open>EliminateDiscrete\<close>
  and of the other families' functions are missing. The factors are combined into
  one joint factor over frontal and separator keys, which is split into
  P(frontals | separator) and a factor on the separator.\<close>

definition Eliminate :: "Factor list \<Rightarrow> Ordering \<Rightarrow> Conditional \<times> Factor" where
  "Eliminate fs frontalKeys =
     (let separator = separatorKeys fs frontalKeys
      in (Conditional frontalKeys separator, Factor separator))"

subsection \<open>EliminationTree\<close>

text \<open>Modelled from the spec: an EliminationTree node (section 3) owns one key, the
  factors that first mention it, and its child nodes; the trees form a forest, and the
  factors that no variable of the ordering touches remain.\<close>

datatype ETreeNode = ETreeNode Key "Factor list" "ETreeNode list"

record EliminationTree =
  roots :: "ETreeNode list"
  remainingFactors :: "Factor list"

text \<open>Modelled from the spec: reading the factors at the positions the VariableIndex
  gives; a position outside the graph is an error (section 4.1), a null handle is a
  removed factor.\<close>

fun getFactors :: "FactorGraph \<Rightarrow> nat list \<Rightarrow> ConfigurationError + Factor list" where
  "getFactors graph [] = Inr []"
| "getFactors graph (i # js) =
     (if length graph \<le> i then Inl (FactorIndexOutOfRange i)
      else (case getFactors graph js of
              Inl e \<Rightarrow> Inl e
            | Inr fs \<Rightarrow> Inr (case graph ! i of None \<Rightarrow> fs | Some f \<Rightarrow> f # fs)))"

text \<open>Modelled from the spec: the state of the construction of section 4.3. A subtree
  already built waits, with the separator factor it promotes, for its parent: the
  variable of smallest ordering position among the keys of that factor.\<close>

record Pending =
  subtree :: ETreeNode
  residual :: Factor
  parent :: "Key option"

record Construction =
  consumed :: "nat list"
  pending :: "Pending list"

text \<open>Modelled from the spec: one step of section 4.3. The node of \<open>v\<close> owns the
  not-yet-consumed factors touching \<open>v\<close>; the subtrees whose parent is \<open>v\<close> become
  its children; its own parent is the first of the later variables among the other
  keys touched, and it is a root if there is none.\<close>

definition addNode ::
  "FactorGraph \<Rightarrow> VariableIndex \<Rightarrow> Key \<Rightarrow> Ordering \<Rightarrow> Construction
     \<Rightarrow> ConfigurationError + Construction" where
  "addNode graph vi v later st =
     (case map_of vi v of
        None \<Rightarrow> Inl (UnknownKey v)
      | Some js \<Rightarrow>
          (let fresh = filter (\<lambda>i. i \<notin> set (consumed st)) js
           in case getFactors graph fresh of
                Inl e \<Rightarrow> Inl e
              | Inr own \<Rightarrow>
                  (let kids = filter (\<lambda>p. parent p = Some v) (pending st);
                       others = filter (\<lambda>p. parent p \<noteq> Some v) (pending st);
                       separator = separatorKeys (own @ map residual kids) [v]
                   in Inr \<lparr> consumed = consumed st @ fresh,
                            pending = others @
                              [\<lparr> subtree = ETreeNode v own (map subtree kids),
                                 residual = Factor separator,
                                 parent = find (\<lambda>k. k \<in> set separator) later \<rparr>] \<rparr>)))"

fun addNodes ::
  "FactorGraph \<Rightarrow> VariableIndex \<Rightarrow> Ordering \<Rightarrow> Construction
     \<Rightarrow> ConfigurationError + Construction" where
  "addNodes graph vi [] st = Inr st"
| "addNodes graph vi (v # later) st =
     (case addNode graph vi v later st of
        Inl e \<Rightarrow> Inl e
      | Inr st' \<Rightarrow> addNodes graph vi later st')"

text \<open>Modelled from the spec: \<open>build(graph, ordering) -> EliminationTree\<close> (section
  4.3), which processes the variables in ordering. An ordering with a repeated key is
  rejected (sections 3 and 7).\<close>

definition buildEliminationTree ::
  "FactorGraph \<Rightarrow> VariableIndex \<Rightarrow> Ordering \<Rightarrow> ConfigurationError + EliminationTree" where
  "buildEliminationTree graph vi order =
     (if \<not> distinct order then Inl InvalidOrdering
      else case addNodes graph vi order \<lparr> consumed = [], pending = [] \<rparr> of
             Inl e \<Rightarrow> Inl e
           | Inr st \<Rightarrow>
               Inr \<lparr> roots = map subtree (pending st),
                     remainingFactors =
                       concat (map (\<lambda>(i, f). case f of None \<Rightarrow> [] | Some g \<Rightarrow>
                                      if i \<in> set (consumed st) then [] else [g])
                                 (zip [0..<length graph] graph)) \<rparr>)"

subsection \<open>JunctionTree\<close>

text \<open>Modelled from the spec: a cluster (sections 3 and 4.6) owns its frontal keys,
  the factors of the nodes merged into it, and its child clusters.\<close>

datatype Cluster = Cluster "Key list" "Factor list" "Cluster list"

text \<open>Modelled from the spec: the condition of section 4.6 under which a child may be
  absorbed: its separator is a subset of the parent's frontal and separator keys.\<close>

definition absorbable :: "Key list \<Rightarrow> Key list \<Rightarrow> Key list \<Rightarrow> bool" where
  "absorbable parentFrontals parentSeparator childSeparator =
     (set childSeparator \<subseteq> set parentFrontals \<union> set parentSeparator)"

text \<open>Modelled from the spec: section 4.6 says that a child \<^emph>\<open>may\<close> be absorbed when
  the condition holds; which of the permitted children are absorbed is the choice of
  the implementation (JunctionTree-inst.h is missing). The choice is a parameter: a
  predicate on the parent's frontal keys, the parent's separator and the child's
  separator.\<close>

type_synonym MergePolicy = "Key list \<Rightarrow> Key list \<Rightarrow> Key list \<Rightarrow> bool"

text \<open>Modelled from the spec: absorbing children into the cluster of their parent
  (section 4.6). An absorbed child adds its frontal keys (eliminated first), its
  factors and its own children to the cluster; any other child stays a child.\<close>

fun absorbChildren ::
  "MergePolicy \<Rightarrow> Key list \<Rightarrow> Cluster \<Rightarrow> (Cluster \<times> Key list) list \<Rightarrow> Cluster" where
  "absorbChildren merge separator cl [] = cl"
| "absorbChildren merge separator (Cluster fr fs cs) ((Cluster cfr cfs ccs, csep) # rest) =
     absorbChildren merge separator
       (if merge fr separator csep \<and> absorbable fr separator csep
        then Cluster (cfr @ fr) (fs @ cfs) (cs @ ccs)
        else Cluster fr fs (cs @ [Cluster cfr cfs ccs]))
       rest"

text \<open>Modelled from the spec: the bottom-up walk of the EliminationTree (section
  4.6). The clusters of the children are built first; the result is the cluster of the
  node together with the node's separator.\<close>

fun buildCluster :: "MergePolicy \<Rightarrow> ETreeNode \<Rightarrow> Cluster \<times> Key list" where
  "buildCluster merge (ETreeNode v fs kids) =
     (let rs = map (buildCluster merge) kids;
          separator = separatorKeys (fs @ map (Factor \<circ> snd) rs) [v]
      in (absorbChildren merge separator (Cluster [v] fs []) rs, separator))"

subsection \<open>BayesTree\<close>

text \<open>Modelled from the spec: a clique (section 3) holds the conditional of its
  cluster and its child cliques; the parent of a clique is the clique that lists it
  among its children. A BayesTree is the list of its root cliques.\<close>

datatype Clique = Clique Conditional "Clique list"

text \<open>Modelled from the spec: multifrontal elimination of a cluster (section 4.6):
  the children first, then \<open>Eliminate\<close> on the cluster's factors and the separator
  factors received from the children, with the cluster's frontal keys.\<close>

fun eliminateCluster :: "Cluster \<Rightarrow> Clique \<times> Factor" where
  "eliminateCluster (Cluster fr fs cs) =
     (let rs = map eliminateCluster cs;
          (conditional, separatorFactor) = Eliminate (fs @ map snd rs) fr
      in (Clique conditional (map fst rs), separatorFactor))"

text \<open>Modelled from the spec: the control flow of section 2 for multifrontal
  elimination, FactorGraph and Ordering to VariableIndex to EliminationTree to
  JunctionTree to BayesTree. As \<open>eliminatePartialMultifrontal\<close> in the notebooks, it
  returns the BayesTree and the remaining factors; the separator factor of a root is
  discarded when it has no key left (section 4.5).\<close>

definition eliminatePartialMultifrontal ::
  "MergePolicy \<Rightarrow> FactorGraph \<Rightarrow> Ordering
     \<Rightarrow> ConfigurationError + (Clique list \<times> Factor list)" where
  "eliminatePartialMultifrontal merge graph order =
     (case buildEliminationTree graph (buildVariableIndex graph) order of
        Inl e \<Rightarrow> Inl e
      | Inr et \<Rightarrow>
          (let rs = map (\<lambda>n. eliminateCluster (fst (buildCluster merge n))) (roots et)
           in Inr (map fst rs,
                  remainingFactors et @ filter (\<lambda>f. keys f \<noteq> []) (map snd rs))))"

text \<open>Modelled from the spec: the running-intersection invariant of sections 3 and 8,
  for a clique and all the cliques below it: the separator of every child is within
  the frontal and separator keys of its parent.\<close>

fun runningIntersection :: "Clique \<Rightarrow> bool" where
  "runningIntersection (Clique c cs) =
     (\<forall>child \<in> set cs.
        (case child of Clique d _ \<Rightarrow>
           set (parents d) \<subseteq> set (frontals c) \<union> set (parents c))
        \<and> runningIntersection child)"

subsection \<open>The graph of the notebooks\<close>

text \<open>
  \<open>X j\<close> and \<open>L j\<close> are the keys of \<open>symbol_shorthand\<close>: the character in the top
  byte, the index below (HybridConditional.ipynb prints \<open>X(0)\<close> as
  8646911284551352320).
\<close>

definition X :: "nat \<Rightarrow> Key" where "X j = 8646911284551352320 + j"
definition L :: "nat \<Rightarrow> Key" where "L j = 7782220156096217088 + j"

text \<open>The seven factors that JunctionTree.ipynb and EliminationTree.ipynb add, by
  their keys.\<close>

definition notebookGraph :: FactorGraph where
  "notebookGraph =
     [Some (Factor [X 0]),
      Some (Factor [X 0, X 1]),
      Some (Factor [X 1, X 2]),
      Some (Factor [L 1, X 0]),
      Some (Factor [L 1, X 1]),
      Some (Factor [L 2, X 1]),
      Some (Factor [L 2, X 2])]"

section \<open>Properties of HybridConditional\<close>

text \<open>
  C8. Wherever \<open>logProbability\<close> returns a value \<open>p\<close> (it has not thrown),
  \<open>evaluate\<close> on the same values returns \<open>exp p\<close>.
\<close>

theorem evaluate_is_exp_logProbability:
  assumes "logProbability c v = Inr p"
  shows "evaluate c v = Inr (exp p)"
  using assms by (simp add: evaluate_def)

theorem evaluate_is_exp_logProbability_witness:
  "logProbability \<lparr> inner = Some (IsGaussianConditional unitGaussian) \<rparr>
       (sampleValues 0 1) = Inr 0
   \<and> evaluate \<lparr> inner = Some (IsGaussianConditional unitGaussian) \<rparr>
       (sampleValues 0 1) = Inr 1"
proof -
  have lp: "logProbability \<lparr> inner = Some (IsGaussianConditional unitGaussian) \<rparr>
              (sampleValues 0 1) = Inr 0"
    by (simp add: logProbability_def asGaussian_def unitGaussian_def sampleValues_def)
  from evaluate_is_exp_logProbability [OF lp] lp show ?thesis by simp
qed

text \<open>
  C9. For a HybridConditional that wraps a Gaussian conditional, \<open>error\<close> gives the
  same result on two assignments whose continuous parts are equal, whatever their
  discrete parts; for one that wraps a discrete conditional, it gives the same result
  on two assignments whose discrete parts are equal, whatever their continuous parts.
\<close>

theorem error_depends_on_own_part:
  shows "(inner c = Some (IsGaussianConditional gc) \<longrightarrow>
            continuous v1 = continuous v2 \<longrightarrow> error c v1 = error c v2)
       \<and> (inner c = Some (IsDiscreteConditional dc) \<longrightarrow>
            discrete v1 = discrete v2 \<longrightarrow> error c v1 = error c v2)"
  by (simp add: error_def asGaussian_def asHybrid_def asDiscrete_def)

theorem error_depends_on_own_part_witness:
  "error \<lparr> inner = Some (IsGaussianConditional unitGaussian) \<rparr> (sampleValues 2 0)
     = error \<lparr> inner = Some (IsGaussianConditional unitGaussian) \<rparr> (sampleValues 2 1)
   \<and> error \<lparr> inner = Some (IsGaussianConditional unitGaussian) \<rparr> (sampleValues 2 0)
     = Inr 2
   \<and> error \<lparr> inner = Some (IsDiscreteConditional coin) \<rparr> (sampleValues 2 1)
     = error \<lparr> inner = Some (IsDiscreteConditional coin) \<rparr> (sampleValues 3 1)
   \<and> error \<lparr> inner = Some (IsDiscreteConditional coin) \<rparr> (sampleValues 2 1)
     = Inr 1"
proof -
  have a: "error \<lparr> inner = Some (IsGaussianConditional unitGaussian) \<rparr> (sampleValues 2 0)
     = error \<lparr> inner = Some (IsGaussianConditional unitGaussian) \<rparr> (sampleValues 2 1)"
    using error_depends_on_own_part
      [of "\<lparr> inner = Some (IsGaussianConditional unitGaussian) \<rparr>" unitGaussian
          "sampleValues 2 0" "sampleValues 2 1" coin]
    by (simp add: sampleValues_def)
  have b: "error \<lparr> inner = Some (IsDiscreteConditional coin) \<rparr> (sampleValues 2 1)
     = error \<lparr> inner = Some (IsDiscreteConditional coin) \<rparr> (sampleValues 3 1)"
    using error_depends_on_own_part
      [of "\<lparr> inner = Some (IsDiscreteConditional coin) \<rparr>" unitGaussian
          "sampleValues 2 1" "sampleValues 3 1" coin]
    by (simp add: sampleValues_def)
  have c: "error \<lparr> inner = Some (IsGaussianConditional unitGaussian) \<rparr> (sampleValues 2 0)
     = Inr 2"
    by (simp add: error_def asGaussian_def unitGaussian_def sampleValues_def)
  have d: "error \<lparr> inner = Some (IsDiscreteConditional coin) \<rparr> (sampleValues 2 1)
     = Inr 1"
    by (simp add: error_def asGaussian_def asHybrid_def asDiscrete_def coin_def
        sampleValues_def)
  from a b c d show ?thesis by simp
qed

text \<open>
  C10. When none of the three casts succeeds (the inner pointer is null, or points to
  a factor of another class), \<open>error\<close>, \<open>errorTree\<close>, \<open>logProbability\<close> and
  \<open>negLogConstant\<close> all throw a \<open>runtime_error\<close> and return no value.
\<close>

theorem unhandled_inner_throws:
  assumes "inner c = None \<or> inner c = Some IsOtherFactor"
  shows "error c v =
           Inl (runtime_error ''HybridConditional::error: conditional type not handled'')
       \<and> errorTree c x =
           Inl (runtime_error ''HybridConditional::error: conditional type not handled'')
       \<and> logProbability c v =
           Inl (runtime_error
                  ''HybridConditional::logProbability: conditional type not handled'')
       \<and> negLogConstant c =
           Inl (runtime_error
                  ''HybridConditional::negLogConstant: conditional type not handled'')"
  using assms
  by (auto simp: error_def errorTree_def logProbability_def negLogConstant_def
      asGaussian_def asHybrid_def asDiscrete_def)

theorem unhandled_inner_throws_witness:
  "error \<lparr> inner = None \<rparr> (sampleValues 0 0) =
     Inl (runtime_error ''HybridConditional::error: conditional type not handled'')
   \<and> negLogConstant \<lparr> inner = Some IsOtherFactor \<rparr> =
     Inl (runtime_error ''HybridConditional::negLogConstant: conditional type not handled'')"
  using unhandled_inner_throws [of "\<lparr> inner = None \<rparr>" "sampleValues 0 0" "Map.empty"]
    unhandled_inner_throws [of "\<lparr> inner = Some IsOtherFactor \<rparr>" "sampleValues 0 0"
      "Map.empty"]
  by simp

section \<open>Properties of the elimination engine\<close>

lemma set_separatorKeys:
  "set (separatorKeys fs frontalKeys) = (\<Union>f\<in>set fs. set (keys f)) - set frontalKeys"
  by (auto simp: separatorKeys_def)

lemma subset_frontal_separator: "A \<subseteq> U \<Longrightarrow> F \<subseteq> G \<Longrightarrow> A \<subseteq> G \<union> (U - F)"
  by blast

lemma eliminateCluster_parents:
  "eliminateCluster cl = (Clique d ks, f) \<Longrightarrow> parents d = keys f"
  by (cases cl) (auto simp: Eliminate_def Let_def split: prod.splits)

text \<open>
  Whatever the cluster tree, the clique tree that elimination returns has the
  running-intersection property: the separator factor of a child is one of the
  factors its parent eliminates, so its keys are frontal or separator keys there.
\<close>

lemma runningIntersection_eliminateCluster:
  "runningIntersection (fst (eliminateCluster cl))"
proof (induction cl rule: eliminateCluster.induct)
  case (1 fr fs cs)
  let ?rs = "map eliminateCluster cs"
  let ?sep = "separatorKeys (fs @ map snd ?rs) fr"
  have children:
    "set (parents d) \<subseteq> set fr \<union> set ?sep \<and> runningIntersection (Clique d ks)"
    if "Clique d ks \<in> set (map fst ?rs)" for d ks
  proof -
    from that obtain x where x: "x \<in> set cs" "fst (eliminateCluster x) = Clique d ks"
      by auto
    then have eq: "eliminateCluster x = (Clique d ks, snd (eliminateCluster x))"
      by (metis prod.collapse)
    have p: "parents d = keys (snd (eliminateCluster x))"
      by (rule eliminateCluster_parents [OF eq])
    have "snd (eliminateCluster x) \<in> set (fs @ map snd ?rs)"
      using x(1) by simp
    then have "set (keys (snd (eliminateCluster x)))
        \<subseteq> (\<Union>f\<in>set (fs @ map snd ?rs). set (keys f))"
      by (rule UN_upper)
    then have "set (parents d) \<subseteq> set fr \<union> set ?sep"
      unfolding set_separatorKeys p by (rule subset_frontal_separator) (rule subset_refl)
    moreover have "runningIntersection (Clique d ks)"
      using "1.IH" [OF x(1)] x(2) by simp
    ultimately show ?thesis by simp
  qed
  have e: "fst (eliminateCluster (Cluster fr fs cs)) =
             Clique (Conditional fr ?sep) (map fst ?rs)"
    by (simp add: Eliminate_def Let_def)
  show ?case
    unfolding e runningIntersection.simps
  proof (intro ballI)
    fix child
    assume c: "child \<in> set (map fst ?rs)"
    obtain d ks where d: "child = Clique d ks" by (cases child)
    from children [of d ks] c d show
      "(case child of Clique d x \<Rightarrow>
          set (parents d) \<subseteq> set (frontals (Conditional fr ?sep))
            \<union> set (parents (Conditional fr ?sep)))
       \<and> runningIntersection child"
      by simp
  qed
qed

text \<open>
  While a cluster is built, the condition of section 4.6 holds for every child of the
  node, whatever has been absorbed before: the child's separator factor is among the
  factors that give the node its separator. So the condition alone never keeps a child
  apart, and the number of clusters is the merge policy's choice.
\<close>

lemma absorbable_child:
  assumes "r \<in> set rs" and "v \<in> set fr"
  shows "absorbable fr (separatorKeys (fs @ map (Factor \<circ> snd) rs) [v]) (snd r)"
proof -
  have "Factor (snd r) \<in> set (fs @ map (Factor \<circ> snd) rs)"
    using assms(1) by auto
  then have "set (keys (Factor (snd r)))
      \<subseteq> (\<Union>f\<in>set (fs @ map (Factor \<circ> snd) rs). set (keys f))"
    by (rule UN_upper)
  then have "set (snd r) \<subseteq> (\<Union>f\<in>set (fs @ map (Factor \<circ> snd) rs). set (keys f))"
    by simp
  moreover have "set [v] \<subseteq> set fr"
    using assms(2) by simp
  ultimately show ?thesis
    unfolding absorbable_def set_separatorKeys by (rule subset_frontal_separator)
qed

subsection \<open>The run of EliminationTree.ipynb\<close>

lemma notebook_VariableIndex:
  "buildVariableIndex notebookGraph =
     [(X 0, [0, 1, 3]), (X 1, [1, 2, 4, 5]), (X 2, [2, 6]), (L 1, [3, 4]), (L 2, [5, 6])]"
  by (simp add: buildVariableIndex_def notebookGraph_def augment_def X_def L_def)

text \<open>The elimination tree that EliminationTree.ipynb prints for the ordering
  x0, l1, x1, l2, x2: a chain, each node with the factors printed under it.\<close>

lemma notebook_EliminationTree:
  "buildEliminationTree notebookGraph (buildVariableIndex notebookGraph) [X 0, L 1, X 1, L 2, X 2] =
     Inr \<lparr> roots =
             [ETreeNode (X 2) []
               [ETreeNode (L 2) [Factor [L 2, X 2]]
                 [ETreeNode (X 1) [Factor [X 1, X 2], Factor [L 2, X 1]]
                   [ETreeNode (L 1) [Factor [L 1, X 1]]
                     [ETreeNode (X 0) [Factor [X 0], Factor [X 0, X 1], Factor [L 1, X 0]]
                        []]]]]],
           remainingFactors = [] \<rparr>"
  unfolding notebook_VariableIndex
  by (simp add: Let_def buildEliminationTree_def addNode_def separatorKeys_def notebookGraph_def
      X_def L_def)

text \<open>A sample input for the theorems below: multifrontal elimination of that tree
  under one of the merge policies that section 4.6 permits (absorb a child when the
  parent's frontal and separator keys all occur in the child's separator). It gives
  two cliques, the second a child of the first.\<close>

lemma notebook_multifrontal:
  "eliminatePartialMultifrontal (\<lambda>fr sep csep. set fr \<union> set sep \<subseteq> set csep)
     notebookGraph [X 0, L 1, X 1, L 2, X 2] =
     Inr ([Clique (Conditional [X 1, L 2, X 2] [])
             [Clique (Conditional [X 0, L 1] [X 1]) []]], [])"
  unfolding eliminatePartialMultifrontal_def notebook_EliminationTree
  by (simp add: Let_def absorbable_def separatorKeys_def Eliminate_def X_def L_def)

subsection \<open>The claims about elimination\<close>

text \<open>
  C1. Running intersection. For every factor graph, ordering and merge policy for
  which multifrontal elimination returns a BayesTree, every clique of the tree that
  has a parent has its separator within the frontal and separator keys of that parent.
\<close>

theorem multifrontal_running_intersection:
  assumes "eliminatePartialMultifrontal merge graph order = Inr (bayesTree, remaining)"
  shows "\<forall>root \<in> set bayesTree. runningIntersection root"
  using assms
  by (auto simp: eliminatePartialMultifrontal_def Let_def runningIntersection_eliminateCluster
      split: sum.splits)

theorem multifrontal_running_intersection_witness:
  "eliminatePartialMultifrontal (\<lambda>fr sep csep. set fr \<union> set sep \<subseteq> set csep)
     notebookGraph [X 0, L 1, X 1, L 2, X 2] =
     Inr ([Clique (Conditional [X 1, L 2, X 2] [])
             [Clique (Conditional [X 0, L 1] [X 1]) []]], [])
   \<and> runningIntersection
        (Clique (Conditional [X 1, L 2, X 2] []) [Clique (Conditional [X 0, L 1] [X 1]) []])"
  using multifrontal_running_intersection [OF notebook_multifrontal] notebook_multifrontal
  by simp

text \<open>
  C3. The elimination step. For a non-empty list of frontal keys, \<open>Eliminate\<close>
  returns a conditional whose frontal keys are the given ones and whose parents are
  the separator, and a factor on exactly the separator keys: the keys of the input
  factors that are not frontal. No frontal key is a key of the returned factor.
\<close>

theorem Eliminate_contract:
  assumes "frontalKeys \<noteq> []"
    and "Eliminate factors frontalKeys = (conditional, separatorFactor)"
  shows "frontals conditional = frontalKeys
       \<and> parents conditional = keys separatorFactor
       \<and> set (keys separatorFactor) = (\<Union>f\<in>set factors. set (keys f)) - set frontalKeys
       \<and> set (keys separatorFactor) \<inter> set frontalKeys = {}"
  using assms(2) by (auto simp: Eliminate_def Let_def set_separatorKeys)

theorem Eliminate_contract_witness:
  "Eliminate [Factor [L 1, X 0], Factor [L 1, X 1]] [L 1] =
     (Conditional [L 1] [X 0, X 1], Factor [X 0, X 1])
   \<and> set (keys (Factor [X 0, X 1])) \<inter> set [L 1] = {}"
proof -
  have ne: "[L 1] \<noteq> []" by simp
  have e: "Eliminate [Factor [L 1, X 0], Factor [L 1, X 1]] [L 1] =
             (Conditional [L 1] [X 0, X 1], Factor [X 0, X 1])"
    by (simp add: Eliminate_def Let_def separatorKeys_def X_def L_def)
  from Eliminate_contract [OF ne e] e show ?thesis by simp
qed

end
